theory Spec2Isabelle
  imports Complex_Main
begin

section \<open>Python strings\<close>

text \<open>
  A Python \<^verbatim>\<open>str\<close> is a sequence of Unicode code points, and \<^verbatim>\<open>len\<close>, slicing and
  \<^verbatim>\<open>in\<close> work on code points. A text is therefore a list of code points; \<open>lit\<close> turns an
  ASCII literal of the source into such a list. The keyword tables of the repository are
  written in ASCII and in Devanagari: \<open>lower_cp\<close> and \<open>isdigit_cp\<close> are the functions
  of Python on these two ranges and take every other code point for a character without
  case that is no digit; \<open>isspace_cp\<close> is the whole table of Python.
\<close>

type_synonym cp = nat
type_synonym ustr = "cp list"

definition lit :: "string \<Rightarrow> ustr" where
  "lit s = map of_char s"

definition lower_cp :: "cp \<Rightarrow> cp" where
  "lower_cp c = (if 65 \<le> c \<and> c \<le> 90 then c + 32 else c)"

text \<open>\<^verbatim>\<open>s.lower()\<close>\<close>

definition lower :: "ustr \<Rightarrow> ustr" where
  "lower s = map lower_cp s"

text \<open>\<^verbatim>\<open>s.startswith(p)\<close>\<close>

fun startswith :: "ustr \<Rightarrow> ustr \<Rightarrow> bool" where
  "startswith s [] = True"
| "startswith [] (p # ps) = False"
| "startswith (c # cs) (p # ps) = (c = p \<and> startswith cs ps)"

text \<open>\<^verbatim>\<open>k in s\<close> on strings: \<open>k\<close> occurs in \<open>s\<close> as a contiguous run.\<close>

fun contains :: "ustr \<Rightarrow> ustr \<Rightarrow> bool" where
  "contains k [] = (k = [])"
| "contains k (c # cs) = (startswith (c # cs) k \<or> contains k cs)"

section \<open>Risk scorer (\<^verbatim>\<open>backend/llm/risk_scorer.py\<close>)\<close>

datatype level = Low | Medium | High

record flag =
  type :: string
  description :: string

record pattern_info =
  keyword_list :: "ustr list"
  weight :: int
  description :: string

text \<open>The result of \<^verbatim>\<open>score_clause\<close>: the dict with keys score, level, flags.\<close>

record clause_risk =
  score :: int
  level :: level
  flags :: "flag list"

text \<open>
  A clause is a dict that holds at least the key \<^verbatim>\<open>text\<close>; \<^verbatim>\<open>score_contract\<close> writes the
  keys \<^verbatim>\<open>risk_score\<close> and \<^verbatim>\<open>risk_level\<close>, which are absent (\<open>None\<close>) until then. All other
  keys of the dict (header, id, type, entities, ...) are the extension part of the record.
\<close>

record clause =
  clause_text :: ustr
  risk_score :: "int option"
  risk_level :: "level option"

text \<open>The result of \<^verbatim>\<open>score_contract\<close>. The float \<^verbatim>\<open>composite_score\<close> is the rational it stands for.\<close>

record contract_risk =
  composite_score :: rat
  risk_level :: level
  flags :: "flag list"
  clause_count :: nat
  high_risk_clauses :: nat

definition HIGH_RISK_THRESHOLD :: int where
  "HIGH_RISK_THRESHOLD = 70"

definition MEDIUM_RISK_THRESHOLD :: int where
  "MEDIUM_RISK_THRESHOLD = 40"

text \<open>\<^verbatim>\<open>_get_risk_patterns\<close>: the dict of patterns, in insertion order.\<close>

definition get_risk_patterns :: "(string \<times> pattern_info) list" where
  "get_risk_patterns =
   [(''unilateral_termination'',
      \<lparr>keyword_list = [lit ''may terminate'', lit ''right to terminate'', lit ''terminate at will'',
                   lit ''terminate without cause'', lit ''sole discretion''],
       weight = 30,
       description = ''One-sided termination rights (may be void per Indian Contract Act if arbitrary)''\<rparr>),
    (''uncapped_liability'',
      \<lparr>keyword_list = [lit ''unlimited liability'', lit ''no limit'', lit ''without limitation'',
                   lit ''liable for all'', lit ''indemnify against all''],
       weight = 35,
       description = ''Unlimited liability exposure''\<rparr>),
    (''auto_renewal_lock_in'',
      \<lparr>keyword_list = [lit ''automatically renew'', lit ''auto-renewal'', lit ''lock-in period'',
                   lit ''cannot terminate during''],
       weight = 20,
       description = ''Auto-renewal or Lock-in period (check if > 3 years)''\<rparr>),
    (''penalty_high'',
      \<lparr>keyword_list = [lit ''penalty'', lit ''liquidated damages'', lit ''forfeit'', lit ''pay as damages''],
       weight = 25,
       description = ''Penalty clause (Indian courts distinguish between reasonable compensation and penalty)''\<rparr>),
    (''non_compete_excessive'',
      \<lparr>keyword_list = [lit ''non-compete'', lit ''shall not compete'', lit ''restrictive covenant'',
                   lit ''after termination''],
       weight = 30,
       description = ''Post-termination non-compete (Often void in India under Sec 27 unless reasonable)''\<rparr>),
    (''ip_transfer'',
      \<lparr>keyword_list = [lit ''transfer of intellectual property'', lit ''ip rights transfer'',
                   lit ''ownership of all work'', lit ''work for hire''],
       weight = 25,
       description = ''Intellectual property transfer''\<rparr>),
    (''foreign_jurisdiction'',
      \<lparr>keyword_list = [lit ''courts of singapore'', lit ''courts of london'',
                   lit ''exclusive jurisdiction of'', lit ''outside india''],
       weight = 40,
       description = ''Foreign Jurisdiction (High cost/risk for Indian SME)''\<rparr>),
    (''arbitration_cost'',
      \<lparr>keyword_list = [lit ''arbitration in london'', lit ''singapore international arbitration'',
                   lit ''icc rules''],
       weight = 35,
       description = ''High-cost International Arbitration''\<rparr>),
    (''ambiguous_terms'',
      \<lparr>keyword_list = [lit ''reasonable'', lit ''best efforts'', lit ''as soon as possible'',
                   lit ''appropriate''],
       weight = 10,
       description = ''Ambiguous or vague terms''\<rparr>)]"

text \<open>\<^verbatim>\<open>any(keyword in clause_lower for keyword in pattern_info['keywords'])\<close>\<close>

definition any_keyword :: "ustr list \<Rightarrow> ustr \<Rightarrow> bool" where
  "any_keyword ks s = list_ex (\<lambda>keyword. contains keyword s) ks"

text \<open>
  The loop of \<^verbatim>\<open>score_clause\<close> over the patterns; its state is the pair of the running
  \<^verbatim>\<open>score\<close> and the list \<^verbatim>\<open>flags\<close>.
\<close>

fun pattern_loop :: "(string \<times> pattern_info) list \<Rightarrow> ustr \<Rightarrow> int \<times> flag list \<Rightarrow> int \<times> flag list" where
  "pattern_loop [] clause_lower (sc, fl) = (sc, fl)"
| "pattern_loop ((pattern_name, info) # rest) clause_lower (sc, fl) =
     (if any_keyword (keyword_list info) clause_lower
      then pattern_loop rest clause_lower
             (sc + weight info,
              if weight info \<ge> 25
              then fl @ [\<lparr>type = pattern_name, flag.description = pattern_info.description info\<rparr>]
              else fl)
      else pattern_loop rest clause_lower (sc, fl))"

definition level_of_int :: "int \<Rightarrow> level" where
  "level_of_int s =
     (if s \<ge> HIGH_RISK_THRESHOLD then High
      else if s \<ge> MEDIUM_RISK_THRESHOLD then Medium
      else Low)"

text \<open>\<^verbatim>\<open>score_clause(clause_text, contract_type)\<close>; the contract type is not used by the code.\<close>

definition score_clause :: "ustr \<Rightarrow> string \<Rightarrow> clause_risk" where
  "score_clause text contract_type =
     (let clause_lower = lower text;
          (sc, fl) = pattern_loop get_risk_patterns clause_lower (0, []);
          sc = min sc 100
      in \<lparr>score = sc, level = level_of_int sc, clause_risk.flags = fl\<rparr>)"

text \<open>
  \<^verbatim>\<open>round(x, 2)\<close> on the rational \<open>x\<close>: the nearest multiple of 1/100, a tie going to the
  even multiple. A float is taken for the rational it stands for; the error of the binary
  representation, below 2 to the power -45 on the scores from 0 to 100, is not modelled.
\<close>

definition round_half_even :: "rat \<Rightarrow> int" where
  "round_half_even x =
     (let f = \<lfloor>x\<rfloor>; d = x - of_int f
      in if d < 1 / 2 then f
         else if d > 1 / 2 then f + 1
         else if even f then f else f + 1)"

definition round2 :: "rat \<Rightarrow> rat" where
  "round2 x = of_int (round_half_even (x * 100)) / 100"

text \<open>
  The loop of \<^verbatim>\<open>score_contract\<close> over the clauses. Its state: the clauses already updated
  in place, \<^verbatim>\<open>clause_scores\<close> and \<^verbatim>\<open>risk_flags\<close>.
\<close>

fun clause_loop :: "string \<Rightarrow> 'a clause_scheme list \<Rightarrow>
    'a clause_scheme list \<times> int list \<times> flag list \<Rightarrow> 'a clause_scheme list \<times> int list \<times> flag list" where
  "clause_loop contract_type [] st = st"
| "clause_loop contract_type (c # rest) (updated, clause_scores, risk_flags) =
     (let risk_result = score_clause (clause_text c) contract_type;
          c' = c\<lparr>risk_score := Some (score risk_result),
                 clause.risk_level := Some (level risk_result)\<rparr>
      in clause_loop contract_type rest
           (updated @ [c'],
            clause_scores @ [score risk_result],
            if level risk_result = High then risk_flags @ clause_risk.flags risk_result
            else risk_flags))"

text \<open>
  \<^verbatim>\<open>score_contract(contract_type, clauses)\<close> returns its dict and leaves the clauses
  updated; the model returns both.
\<close>

definition score_contract :: "string \<Rightarrow> 'a clause_scheme list \<Rightarrow> contract_risk \<times> 'a clause_scheme list" where
  "score_contract contract_type clauses =
     (let (clauses', clause_scores, risk_flags) = clause_loop contract_type clauses ([], [], []);
          composite =
            (if clause_scores \<noteq> []
             then of_int (sum_list clause_scores) / of_nat (length clause_scores)
             else 0);
          lvl =
            (if composite \<ge> of_int HIGH_RISK_THRESHOLD then High
             else if composite \<ge> of_int MEDIUM_RISK_THRESHOLD then Medium
             else Low)
      in (\<lparr>composite_score = round2 composite,
           contract_risk.risk_level = lvl,
           contract_risk.flags = risk_flags,
           clause_count = length clauses',
           high_risk_clauses = length (filter (\<lambda>c. clause.risk_level c = Some High) clauses')\<rparr>,
          clauses'))"

section \<open>Clause extractor (\<^verbatim>\<open>backend/nlp/extractors/clause_extractor.py\<close>)\<close>

subsection \<open>Library functions of Python used by the extractor\<close>

text \<open>\<^verbatim>\<open>c.isspace()\<close>, also the class \<^verbatim>\<open>\s\<close> of a \<^verbatim>\<open>str\<close> pattern: the Unicode white space.\<close>

definition isspace_cp :: "cp \<Rightarrow> bool" where
  "isspace_cp c \<longleftrightarrow>
     (9 \<le> c \<and> c \<le> 13) \<or> (28 \<le> c \<and> c \<le> 32) \<or> c = 133 \<or> c = 160 \<or> c = 5760 \<or>
     (8192 \<le> c \<and> c \<le> 8202) \<or> c = 8232 \<or> c = 8233 \<or> c = 8239 \<or> c = 8287 \<or> c = 12288"

text \<open>
  \<^verbatim>\<open>c.isdigit()\<close>, also the class \<^verbatim>\<open>\d\<close> of a \<^verbatim>\<open>str\<close> pattern, on ASCII and Devanagari:
  the digits 0 to 9 of either script.
\<close>

definition isdigit_cp :: "cp \<Rightarrow> bool" where
  "isdigit_cp c \<longleftrightarrow> (48 \<le> c \<and> c \<le> 57) \<or> (2406 \<le> c \<and> c \<le> 2415)"

text \<open>\<^verbatim>\<open>s.strip()\<close>\<close>

definition strip :: "ustr \<Rightarrow> ustr" where
  "strip s = rev (dropWhile isspace_cp (rev (dropWhile isspace_cp s)))"

text \<open>\<^verbatim>\<open>s.split()\<close>: the maximal runs of characters that are not white space.\<close>

fun split_loop :: "ustr \<Rightarrow> ustr \<Rightarrow> ustr list" where
  "split_loop w [] = (if w = [] then [] else [w])"
| "split_loop w (c # cs) =
     (if isspace_cp c then (if w = [] then split_loop [] cs else w # split_loop [] cs)
      else split_loop (w @ [c]) cs)"

definition split :: "ustr \<Rightarrow> ustr list" where
  "split s = split_loop [] s"

text \<open>\<^verbatim>\<open>s.replace('\r\n', '\n')\<close>\<close>

fun replace_crlf :: "ustr \<Rightarrow> ustr" where
  "replace_crlf (c # d # cs) =
     (if c = 13 \<and> d = 10 then 10 # replace_crlf cs else c # replace_crlf (d # cs))"
| "replace_crlf cs = cs"

text \<open>\<^verbatim>\<open>str(n)\<close> for a natural number, as in the f-string of the clause id.\<close>

fun str_nat :: "nat \<Rightarrow> ustr" where
  "str_nat n = (if n < 10 then [48 + n] else str_nat (n div 10) @ [48 + n mod 10])"

subsection \<open>Regular expressions (\<^verbatim>\<open>re.split\<close>)\<close>

text \<open>
  Python's \<^verbatim>\<open>re\<close> is a backtracking matcher: alternatives are tried from left to right,
  a greedy repetition tries one more round before it tries to stop, and the first way
  through the pattern that succeeds is the match. \<open>ms r s\<close> lists, in this order of
  preference, every state in which \<open>r\<close> can leave off when started in state \<open>s\<close>; a state
  is the text still to be read together with the groups captured so far. The head of the
  list is what the matcher finds.

  A repetition runs its body at most as many rounds as there are characters left. The
  bodies of the repetitions in the two patterns of the extractor read at least one
  character in each round, so that no round is cut off by this bound.
\<close>

datatype rx =
    Eps
  | Sym "cp \<Rightarrow> bool"
  | Seq rx rx
  | Alt rx rx
  | Star rx
  | Plus rx
  | Opt rx
  | Group nat rx

type_synonym mstate = "ustr \<times> (nat \<rightharpoonup> ustr)"

primrec iter :: "nat \<Rightarrow> (mstate \<Rightarrow> mstate list) \<Rightarrow> mstate \<Rightarrow> mstate list" where
  "iter 0 body s = [s]"
| "iter (Suc n) body s = concat (map (iter n body) (body s)) @ [s]"

primrec ms :: "rx \<Rightarrow> mstate \<Rightarrow> mstate list" where
  "ms Eps s = [s]"
| "ms (Sym P) s = (case fst s of [] \<Rightarrow> [] | c # cs \<Rightarrow> if P c then [(cs, snd s)] else [])"
| "ms (Seq a b) s = concat (map (ms b) (ms a s))"
| "ms (Alt a b) s = ms a s @ ms b s"
| "ms (Star a) s = iter (length (fst s)) (ms a) s"
| "ms (Plus a) s = concat (map (\<lambda>s'. iter (length (fst s')) (ms a) s') (ms a s))"
| "ms (Opt a) s = ms a s @ [s]"
| "ms (Group n a) s =
     map (\<lambda>s'. (fst s', (snd s')(n \<mapsto> take (length (fst s) - length (fst s')) (fst s)))) (ms a s)"

text \<open>The match of \<open>r\<close> that starts at the head of \<open>s\<close>, if there is one.\<close>

definition match_at :: "rx \<Rightarrow> ustr \<Rightarrow> mstate option" where
  "match_at r s = (case ms r (s, Map.empty) of [] \<Rightarrow> None | m # _ \<Rightarrow> Some m)"

text \<open>
  \<^verbatim>\<open>re.split(r, s)\<close> for a pattern with the groups \<open>gs\<close> whose matches are never empty:
  the text is scanned from the left for the next match; the piece before the match and the
  groups of the match (\<open>None\<close> for a group that took no part) are put out, and the scan
  goes on behind the match. The rest of the text is the last piece.
\<close>

function re_split_from :: "rx \<Rightarrow> nat list \<Rightarrow> ustr \<Rightarrow> ustr \<Rightarrow> ustr option list" where
  "re_split_from r gs piece [] = [Some piece]"
| "re_split_from r gs piece (c # cs) =
     (case match_at r (c # cs) of
        None \<Rightarrow> re_split_from r gs (piece @ [c]) cs
      | Some m \<Rightarrow>
          if length (fst m) < length (c # cs)
          then Some piece # map (snd m) gs @ re_split_from r gs [] (fst m)
          else re_split_from r gs (piece @ [c]) cs)"
  by pat_completeness auto
termination
  by (relation "measure (\<lambda>(r, gs, piece, s). length s)") auto

definition re_split :: "rx \<Rightarrow> nat list \<Rightarrow> ustr \<Rightarrow> ustr option list" where
  "re_split r gs s = re_split_from r gs [] s"

text \<open>Pieces of patterns; under the flag \<^verbatim>\<open>(?i)\<close> a letter is compared in lower case.\<close>

definition chr :: "char \<Rightarrow> rx" where
  "chr c = Sym (\<lambda>x. x = of_char c)"

definition chr_i :: "char \<Rightarrow> rx" where
  "chr_i c = Sym (\<lambda>x. lower_cp x = lower_cp (of_char c))"

definition word_i :: "string \<Rightarrow> rx" where
  "word_i w = foldr (\<lambda>c r. Seq (chr_i c) r) w Eps"

definition digit :: rx where
  "digit = Sym isdigit_cp"

definition space :: rx where
  "space = Sym isspace_cp"

text \<open>\<^verbatim>\<open>[a-z]\<close> under \<^verbatim>\<open>(?i)\<close>\<close>

definition letter_i :: rx where
  "letter_i = Sym (\<lambda>x. 97 \<le> lower_cp x \<and> lower_cp x \<le> 122)"

text \<open>\<^verbatim>\<open>[a-z0-9\s\(\)\-\,]\<close> under \<^verbatim>\<open>(?i)\<close>\<close>

definition title_char_i :: rx where
  "title_char_i =
     Sym (\<lambda>x. (97 \<le> lower_cp x \<and> lower_cp x \<le> 122) \<or> (48 \<le> x \<and> x \<le> 57) \<or> isspace_cp x \<or>
               x = of_char CHR ''('' \<or> x = of_char CHR '')'' \<or> x = of_char CHR ''-'' \<or>
               x = of_char CHR '','')"

text \<open>
  \<^verbatim>\<open>clause_header_pattern = r'(?i)\n(\d+(\.\d+)*\.?\s+[a-z][a-z0-9\s\(\)\-\,]+|article\s+\d+)\n'\<close>
\<close>

definition clause_header_pattern :: rx where
  "clause_header_pattern =
     Seq (chr CHR 0x0A)
       (Seq (Group 1
               (Alt (Seq (Plus digit)
                      (Seq (Star (Group 2 (Seq (chr CHR ''.'') (Plus digit))))
                        (Seq (Opt (chr CHR ''.''))
                          (Seq (Plus space) (Seq letter_i (Plus title_char_i))))))
                    (Seq (word_i ''article'') (Seq (Plus space) (Plus digit)))))
          (chr CHR 0x0A))"

text \<open>The pattern \<^verbatim>\<open>r'\n\s*\n'\<close> of \<^verbatim>\<open>_process_paragraphs\<close>.\<close>

definition paragraph_pattern :: rx where
  "paragraph_pattern = Seq (chr CHR 0x0A) (Seq (Star space) (chr CHR 0x0A))"

subsection \<open>The extractor\<close>

datatype py_error = IndexError

datatype role = Obligation | Right | Prohibition | Condition | Definition | General

definition obligation_keywords :: "ustr list" where
  "obligation_keywords =
    [lit ''shall'', lit ''must'', lit ''required to'', lit ''obligated to'', lit ''agrees to'',
     [2325, 2352, 2344, 2366, 32, 2361, 2379, 2327, 2366],
     [2348, 2366, 2343, 2381, 2351, 32, 2361, 2376],
     [2309, 2344, 2367, 2357, 2366, 2352, 2381, 2351],
     [2332, 2367, 2350, 2381, 2350, 2375, 2342, 2366, 2352, 2368]]"

definition right_keywords :: "ustr list" where
  "right_keywords =
    [lit ''may'', lit ''entitled to'', lit ''has the right'', lit ''can'',
     lit ''permitted to'', [2309, 2343, 2367, 2325, 2366, 2352, 32, 2361, 2376],
     [2360, 2325, 2340, 2366, 32, 2361, 2376], [2309, 2344, 2369, 2350, 2340, 2367],
     [2360, 2381, 2357, 2340, 2306, 2340, 2381, 2352, 32, 2361, 2376]]"

definition prohibition_keywords :: "ustr list" where
  "prohibition_keywords =
    [lit ''shall not'', lit ''must not'', lit ''prohibited from'', lit ''may not'',
     lit ''forbidden to'', [2344, 2361, 2368, 2306, 32, 2325, 2352, 2375, 2327, 2366],
     [2357, 2352, 2381, 2332, 2367, 2340], [2344, 2367, 2359, 2375, 2343],
     [2346, 2381, 2352, 2340, 2367, 2348, 2306, 2343, 2367, 2340],
     [2350, 2344, 2366, 32, 2361, 2376]]"

definition condition_keywords :: "ustr list" where
  "condition_keywords =
    [lit ''if'', lit ''provided that'', lit ''subject to'', lit ''in the event'',
     [2351, 2342, 2367], [2348, 2358, 2352, 2381, 2340, 2375],
     [2325, 2368, 32, 2360, 2381, 2341, 2367, 2340, 2367, 32, 2350, 2375, 2306],
     [2309, 2343, 2368, 2344]]"

definition definition_keywords :: "ustr list" where
  "definition_keywords =
    [lit ''means'', lit ''refers to'', lit ''defined as'', lit ''definition'',
     [2325, 2366, 32, 2309, 2352, 2381, 2341], [2340, 2340, 2381, 2346, 2352, 2381, 2351],
     [2346, 2352, 2367, 2349, 2366, 2359, 2366]]"

text \<open>A clause as the two segmentation methods build it: the keys header, text, full_text.\<close>

record segment =
  header :: ustr
  body :: ustr
  full_text :: ustr

text \<open>
  A clause as \<^verbatim>\<open>extract\<close> returns it: the keys id, type and word_count are added. The
  risk keys of \<open>clause\<close> are absent.
\<close>

record extracted_clause = clause +
  clause_header :: ustr
  clause_full_text :: ustr
  clause_id :: ustr
  clause_type :: role
  word_count :: nat

text \<open>
  \<^verbatim>\<open>for keyword in keywords: if keyword in text_lower: return ...\<close>: whether the loop
  returns.
\<close>

fun keyword_loop :: "ustr list \<Rightarrow> ustr \<Rightarrow> bool" where
  "keyword_loop [] text_lower = False"
| "keyword_loop (keyword # rest) text_lower =
     (if contains keyword text_lower then True else keyword_loop rest text_lower)"

text \<open>\<^verbatim>\<open>_classify_clause\<close>\<close>

definition classify_clause :: "ustr \<Rightarrow> role" where
  "classify_clause text =
     (let text_lower = lower text
      in if keyword_loop prohibition_keywords text_lower then Prohibition
         else if keyword_loop obligation_keywords text_lower then Obligation
         else if keyword_loop right_keywords text_lower then Right
         else if any_keyword condition_keywords text_lower then Condition
         else if any_keyword definition_keywords text_lower then Definition
         else General)"

text \<open>
  The test \<^verbatim>\<open>len(part) < 100 and (part[0].isdigit() or part.lower().startswith('article'))\<close>
  of \<^verbatim>\<open>_process_numbered_sections\<close>; \<^verbatim>\<open>part[0]\<close> raises on the empty string.
\<close>

definition is_header :: "ustr \<Rightarrow> py_error + bool" where
  "is_header part =
     (if length part < 100
      then (case part of
              [] \<Rightarrow> Inl IndexError
            | c # _ \<Rightarrow> Inr (isdigit_cp c \<or> startswith (lower part) (lit ''article'')))
      else Inr False)"

text \<open>
  The loop of \<^verbatim>\<open>_process_numbered_sections\<close>; its state is \<^verbatim>\<open>current_header\<close> and the
  list \<^verbatim>\<open>clauses\<close>. \<^verbatim>\<open>not part\<close> holds of \<^verbatim>\<open>None\<close> and of the empty string.
\<close>

fun sections_loop :: "ustr option list \<Rightarrow> ustr \<Rightarrow> segment list \<Rightarrow> py_error + segment list" where
  "sections_loop [] current_header clauses = Inr clauses"
| "sections_loop (None # rest) current_header clauses = sections_loop rest current_header clauses"
| "sections_loop (Some p # rest) current_header clauses =
     (if p = [] then sections_loop rest current_header clauses
      else let part = strip p
           in case is_header part of
                Inl e \<Rightarrow> Inl e
              | Inr True \<Rightarrow> sections_loop rest part clauses
              | Inr False \<Rightarrow>
                  if length part > 20
                  then sections_loop rest current_header
                         (clauses @ [\<lparr>header = current_header, body = part,
                                      full_text = current_header @ [10] @ part\<rparr>])
                  else sections_loop rest current_header clauses)"

definition process_numbered_sections :: "ustr option list \<Rightarrow> py_error + segment list" where
  "process_numbered_sections sections = sections_loop sections (lit ''General'') []"

text \<open>The loop of \<^verbatim>\<open>_process_paragraphs\<close>. A piece of this split is never \<^verbatim>\<open>None\<close>.\<close>

fun paragraphs_loop :: "ustr option list \<Rightarrow> segment list \<Rightarrow> segment list" where
  "paragraphs_loop [] clauses = clauses"
| "paragraphs_loop (None # rest) clauses = paragraphs_loop rest clauses"
| "paragraphs_loop (Some p # rest) clauses =
     (let para = strip p
      in if length para > 20
         then paragraphs_loop rest
                (clauses @ [\<lparr>header = (if length para > 50 then take 50 para @ lit ''...'' else para),
                             body = para, full_text = para\<rparr>])
         else paragraphs_loop rest clauses)"

definition process_paragraphs :: "ustr \<Rightarrow> segment list" where
  "process_paragraphs text = paragraphs_loop (re_split paragraph_pattern [] text) []"

text \<open>The last loop of \<^verbatim>\<open>extract\<close>: clause number \<open>i\<close> (from 0) gets its id, type and word count.\<close>

definition finish_clause :: "nat \<times> segment \<Rightarrow> extracted_clause" where
  "finish_clause ic =
     \<lparr>clause_text = body (snd ic), risk_score = None, clause.risk_level = None,
      clause_header = header (snd ic), clause_full_text = full_text (snd ic),
      clause_id = lit ''clause_'' @ str_nat (fst ic + 1),
      clause_type = classify_clause (body (snd ic)),
      word_count = length (split (body (snd ic)))\<rparr>"

text \<open>\<^verbatim>\<open>extract\<close> (the name is taken in Isabelle)\<close>

definition extract_clauses :: "ustr \<Rightarrow> py_error + extracted_clause list" where
  "extract_clauses text0 =
     (let text = replace_crlf text0;
          sections = re_split clause_header_pattern [1, 2] text
      in case (if length sections > 2 then process_numbered_sections sections else Inr []) of
           Inl e \<Rightarrow> Inl e
         | Inr clauses \<Rightarrow>
             Inr (map finish_clause
                   (enumerate 0 (if length clauses < 2 then process_paragraphs text else clauses))))"

section \<open>Notions used in the statements\<close>

text \<open>A pattern fires on a lowered clause text when one of its keywords occurs in it.\<close>

definition fires :: "ustr \<Rightarrow> string \<times> pattern_info \<Rightarrow> bool" where
  "fires clause_lower p = any_keyword (keyword_list (snd p)) clause_lower"

text \<open>The flag that \<^verbatim>\<open>score_clause\<close> appends for a pattern.\<close>

definition flag_of :: "string \<times> pattern_info \<Rightarrow> flag" where
  "flag_of p = \<lparr>type = fst p, flag.description = pattern_info.description (snd p)\<rparr>"


text \<open>The clause dict \<^verbatim>\<open>{'text': t}\<close>.\<close>

definition clause_of :: "ustr \<Rightarrow> clause" where
  "clause_of t = \<lparr>clause_text = t, risk_score = None, clause.risk_level = None\<rparr>"

text \<open>The text of Scenario A.\<close>

definition scenario_A :: ustr where
  "scenario_A =
     lit ''The Company may terminate this agreement at any time without cause and without notice. The Employee shall have unlimited liability for any damages.''"

text \<open>The clause of \<^verbatim>\<open>test_high_risk_detection\<close> in \<^verbatim>\<open>tests/test_risk/test_risk_scorer.py\<close>.\<close>

definition test_high_risk_clause :: ustr where
  "test_high_risk_clause =
     [10] @ lit ''    The Company may terminate this agreement at any time without cause'' @
     [10] @ lit ''    and without notice. The Employee shall have unlimited liability'' @
     [10] @ lit ''    for any damages.'' @
     [10] @ lit ''    ''"


text \<open>A contract that opens with a blank line before its first numbered heading.\<close>

definition blank_line_contract :: ustr where
  "blank_line_contract =
     [10, 10] @ lit ''1. Scope'' @ [10] @ lit ''The vendor shall deliver the goods on time.''"

section \<open>Evaluation\<close>

text \<open>The equations that evaluate the scorer and the extractor on a given text.\<close>

lemmas scorer_eval = score_clause_def get_risk_patterns_def lit_def lower_def lower_cp_def
  any_keyword_def level_of_int_def HIGH_RISK_THRESHOLD_def MEDIUM_RISK_THRESHOLD_def

lemmas rx_eval = clause_header_pattern_def paragraph_pattern_def chr_def chr_i_def word_i_def
  digit_def space_def letter_i_def title_char_i_def match_at_def isspace_cp_def isdigit_cp_def
  lower_cp_def

lemmas keyword_eval = classify_clause_def prohibition_keywords_def obligation_keywords_def
  right_keywords_def condition_keywords_def definition_keywords_def lit_def lower_def lower_cp_def
  any_keyword_def


section \<open>Substrings\<close>

lemma startswith_iff: "startswith s k \<longleftrightarrow> (\<exists>q. s = k @ q)"
  by (induction s k rule: startswith.induct) auto

text \<open>\<^verbatim>\<open>k in s\<close> is what it should be: \<open>k\<close> lies somewhere inside \<open>s\<close>.\<close>

lemma contains_iff: "contains k s \<longleftrightarrow> (\<exists>p q. s = p @ k @ q)"
proof (induction s)
  case Nil
  then show ?case by auto
next
  case (Cons c cs)
  show ?case
  proof
    assume "contains k (c # cs)"
    then consider "startswith (c # cs) k" | "contains k cs" by auto
    then show "\<exists>p q. c # cs = p @ k @ q"
    proof cases
      case 1
      then obtain q where "c # cs = k @ q" by (auto simp: startswith_iff)
      then have "c # cs = [] @ k @ q" by simp
      then show ?thesis by blast
    next
      case 2
      then obtain p q where "cs = p @ k @ q" using Cons.IH by blast
      then have "c # cs = (c # p) @ k @ q" by simp
      then show ?thesis by blast
    qed
  next
    assume "\<exists>p q. c # cs = p @ k @ q"
    then obtain p q where pq: "c # cs = p @ k @ q" by blast
    show "contains k (c # cs)"
    proof (cases p)
      case Nil
      with pq have "startswith (c # cs) k" by (auto simp: startswith_iff)
      then show ?thesis by simp
    next
      case (Cons x p')
      with pq have "cs = p' @ k @ q" by simp
      then have "contains k cs" using Cons.IH by blast
      then show ?thesis by simp
    qed
  qed
qed

lemma contains_extend:
  assumes "contains k s"
  shows "contains k (a @ s @ b)"
proof -
  from assms obtain p q where "s = p @ k @ q" by (auto simp: contains_iff)
  then have "a @ s @ b = (a @ p) @ k @ (q @ b)" by simp
  then show ?thesis unfolding contains_iff by blast
qed

section \<open>The risk scorer\<close>

subsection \<open>What the two loops compute\<close>

lemma pattern_loop_eq:
  "pattern_loop ps cl (sc, fl) =
     (sc + sum_list (map (\<lambda>p. weight (snd p)) (filter (fires cl) ps)),
      fl @ map flag_of (filter (\<lambda>p. fires cl p \<and> weight (snd p) \<ge> 25) ps))"
  by (induction ps arbitrary: sc fl) (auto simp: fires_def flag_of_def)

lemma weights_nonneg: "\<forall>p \<in> set get_risk_patterns. 0 \<le> weight (snd p)"
  by (simp add: get_risk_patterns_def)

lemma sum_filter_nonneg:
  "\<forall>p \<in> set ps. 0 \<le> weight (snd p) \<Longrightarrow>
   0 \<le> sum_list (map (\<lambda>p. weight (snd p)) (filter P ps))"
  by (induction ps) auto

lemma sum_filter_mono:
  "\<forall>p \<in> set ps. 0 \<le> weight (snd p) \<Longrightarrow> (\<And>p. P p \<Longrightarrow> Q p) \<Longrightarrow>
   sum_list (map (\<lambda>p. weight (snd p)) (filter P ps))
     \<le> sum_list (map (\<lambda>p. weight (snd p)) (filter Q ps))"
  by (induction ps) (auto intro: order_trans)

text \<open>The score is the sum of the weights of the patterns that fire, capped at 100.\<close>

lemma score_clause_score:
  "score (score_clause t ct) =
     min (sum_list (map (\<lambda>p. weight (snd p)) (filter (fires (lower t)) get_risk_patterns))) 100"
  by (simp add: score_clause_def pattern_loop_eq Let_def)

text \<open>The flags are one per pattern that fires and weighs 25 or more, in the order of the table.\<close>

lemma score_clause_flags:
  "clause_risk.flags (score_clause t ct) =
     map flag_of (filter (\<lambda>p. fires (lower t) p \<and> weight (snd p) \<ge> 25) get_risk_patterns)"
  by (simp add: score_clause_def pattern_loop_eq Let_def)

lemma score_clause_level:
  "level (score_clause t ct) = level_of_int (score (score_clause t ct))"
  by (simp add: score_clause_def Let_def split: prod.splits)

lemma clause_loop_eq:
  "clause_loop ct cs (upd, scs, fls) =
    (upd @ map (\<lambda>c. c\<lparr>risk_score := Some (score (score_clause (clause_text c) ct)),
                        clause.risk_level := Some (level (score_clause (clause_text c) ct))\<rparr>) cs,
     scs @ map (\<lambda>c. score (score_clause (clause_text c) ct)) cs,
     fls @ concat (map (\<lambda>c. clause_risk.flags (score_clause (clause_text c) ct))
                    (filter (\<lambda>c. level (score_clause (clause_text c) ct) = High) cs)))"
  by (induction cs arbitrary: upd scs fls) (auto simp: Let_def)

subsection \<open>The score of a clause\<close>

text \<open>
  Claim C7. For every clause text, the score returned by \<^verbatim>\<open>score_clause\<close> is an integer in
  the closed interval from 0 to 100.
\<close>

theorem score_clause_range:
  "0 \<le> score (score_clause t ct) \<and> score (score_clause t ct) \<le> 100"
  using sum_filter_nonneg [OF weights_nonneg, of "fires (lower t)"]
  by (simp add: score_clause_score)

text \<open>A pattern that fires on a text fires on every text that contains it.\<close>

lemma fires_extend: "fires (lower t) p \<Longrightarrow> fires (lower (a @ t @ b)) p"
  by (auto simp: fires_def any_keyword_def lower_def list_ex_iff intro: contains_extend)

text \<open>The score grows with the set of patterns that fire.\<close>

lemma score_clause_mono_fired:
  assumes "\<And>p. fires (lower t) p \<Longrightarrow> fires (lower t') p"
  shows "score (score_clause t ct) \<le> score (score_clause t' ct)"
  using sum_filter_mono [OF weights_nonneg, of "fires (lower t)" "fires (lower t')"] assms
  by (auto simp: score_clause_score)

text \<open>
  Claim C9. For every clause text \<open>t\<close> and every extension of \<open>t\<close> (text added in front of
  it, behind it or both, whatever further patterns the added text matches), the score of
  the extension is greater than or equal to the score of \<open>t\<close>; the cap at 100 keeps this.
\<close>

theorem score_clause_mono:
  "score (score_clause t ct) \<le> score (score_clause (a @ t @ b) ct)"
  by (rule score_clause_mono_fired) (rule fires_extend)

text \<open>
  Claim C3. On the text of Scenario A the role is obligation and the two flags
  \<^verbatim>\<open>unilateral_termination\<close> and \<^verbatim>\<open>uncapped_liability\<close> are returned, as the claim says.
  No other pattern has a keyword in the text, so that the score is 30 + 35 = 65 and the
  level is medium, where the claim says a score of 70 or more and the level high.
\<close>

theorem scenario_A_score:
  "classify_clause scenario_A = Obligation \<and>
   score_clause scenario_A ''employment'' =
     \<lparr>score = 65, level = Medium,
      clause_risk.flags =
        [\<lparr>type = ''unilateral_termination'',
          flag.description =
            ''One-sided termination rights (may be void per Indian Contract Act if arbitrary)''\<rparr>,
         \<lparr>type = ''uncapped_liability'', flag.description = ''Unlimited liability exposure''\<rparr>]\<rparr>"
proof
  show "classify_clause scenario_A = Obligation"
    by (simp add: scenario_A_def keyword_eval)
  show "score_clause scenario_A ''employment'' =
     \<lparr>score = 65, level = Medium,
      clause_risk.flags =
        [\<lparr>type = ''unilateral_termination'',
          flag.description =
            ''One-sided termination rights (may be void per Indian Contract Act if arbitrary)''\<rparr>,
         \<lparr>type = ''uncapped_liability'', flag.description = ''Unlimited liability exposure''\<rparr>]\<rparr>"
    by (simp add: scenario_A_def scorer_eval)
qed

text \<open>
  The repository's own test \<^verbatim>\<open>test_high_risk_detection\<close> asserts the level high and a score
  of 70 or more on the same clause, laid out over three indented lines. The scorer
  returns 65 and medium there as well.
\<close>

lemma test_high_risk_detection_result:
  "score (score_clause test_high_risk_clause ''employment'') = 65 \<and>
   level (score_clause test_high_risk_clause ''employment'') = Medium"
  by (simp add: test_high_risk_clause_def scorer_eval)

subsection \<open>The score of a contract\<close>

text \<open>
  Claim C8. \<^verbatim>\<open>score_contract\<close> on the empty list of clauses returns composite_score 0,
  risk_level low, no flags, clause_count 0 and high_risk_clauses 0, and no error.
\<close>

theorem score_contract_empty:
  "score_contract ct [] =
     (\<lparr>composite_score = 0, contract_risk.risk_level = Low, contract_risk.flags = [],
       clause_count = 0, high_risk_clauses = 0\<rparr>, [])"
  by (simp add: score_contract_def Let_def round2_def round_half_even_def
        HIGH_RISK_THRESHOLD_def MEDIUM_RISK_THRESHOLD_def)

text \<open>
  Claim C1 as stated fails. A clause on which only \<^verbatim>\<open>unilateral_termination\<close> fires has
  the score 30 and the level low; \<^verbatim>\<open>score_clause\<close> emits the flag, and \<^verbatim>\<open>score_contract\<close>
  does not collect it.
\<close>

theorem score_contract_flags_counterexample:
  "clause_risk.flags (score_clause (lit ''The Buyer may terminate this order.'') ''vendor'') =
     [\<lparr>type = ''unilateral_termination'',
       flag.description =
         ''One-sided termination rights (may be void per Indian Contract Act if arbitrary)''\<rparr>] \<and>
   contract_risk.flags
     (fst (score_contract ''vendor'' [clause_of (lit ''The Buyer may terminate this order.'')])) = []"
  by (simp add: score_contract_def clause_of_def scorer_eval)

text \<open>
  Claim C1, amended. For every list of clauses, the \<^verbatim>\<open>flags\<close> field of the result of
  \<^verbatim>\<open>score_contract\<close> is the concatenation, in clause order, of the flags emitted by
  \<^verbatim>\<open>score_clause\<close> on the text of each clause whose own risk level is high, with
  duplicates across clauses kept; the flags of a clause of level medium or low are left
  out.
\<close>

theorem score_contract_flags_high_only:
  "contract_risk.flags (fst (score_contract ct cs)) =
     concat (map (\<lambda>c. clause_risk.flags (score_clause (clause_text c) ct))
              (filter (\<lambda>c. level (score_clause (clause_text c) ct) = High) cs))"
  by (simp add: score_contract_def clause_loop_eq Let_def)





text \<open>
  Claim C10. For every list of clauses, \<^verbatim>\<open>score_contract\<close> leaves behind the same clauses
  in the same order, each with \<^verbatim>\<open>risk_score\<close> and \<^verbatim>\<open>risk_level\<close> set to the result of
  \<^verbatim>\<open>score_clause\<close> on its text. A record update changes the named fields alone, so
  that the text and every other key of a clause (the extension of the record) stay as
  they were.
\<close>

theorem score_contract_frame:
  "snd (score_contract ct cs) =
     map (\<lambda>c. c\<lparr>risk_score := Some (score (score_clause (clause_text c) ct)),
                 clause.risk_level := Some (level (score_clause (clause_text c) ct))\<rparr>) cs"
  by (simp add: score_contract_def clause_loop_eq Let_def)

section \<open>The clause extractor\<close>

subsection \<open>The matcher\<close>

lemma iter_le:
  fixes body :: "mstate \<Rightarrow> mstate list"
  assumes "\<And>s s'. s' \<in> set (body s) \<Longrightarrow> length (fst s') \<le> length (fst s)"
  shows "s' \<in> set (iter n body s) \<Longrightarrow> length (fst s') \<le> length (fst s)"
proof (induction n arbitrary: s)
  case 0
  then show ?case by simp
next
  case (Suc n)
  from Suc.prems consider "s' = s" | t where "t \<in> set (body s)" "s' \<in> set (iter n body t)"
    by auto
  then show ?case
  proof cases
    case 1
    then show ?thesis by simp
  next
    case 2
    from Suc.IH [OF 2(2)] assms [OF 2(1)] show ?thesis by simp
  qed
qed

text \<open>No part of a pattern gives back text that was read.\<close>

lemma ms_le: "s' \<in> set (ms r s) \<Longrightarrow> length (fst s') \<le> length (fst s)"
proof (induction r arbitrary: s s')
  case Eps
  then show ?case by simp
next
  case (Sym P)
  then show ?case by (cases "fst s") (simp_all split: if_splits)
next
  case (Seq a b)
  from Seq.prems obtain t where t: "t \<in> set (ms a s)" "s' \<in> set (ms b t)" by auto
  from Seq.IH(1) [OF t(1)] Seq.IH(2) [OF t(2)] show ?case by simp
next
  case (Alt a b)
  from Alt.prems have "s' \<in> set (ms a s) \<or> s' \<in> set (ms b s)" by simp
  with Alt.IH show ?case by blast
next
  case (Star a)
  from Star.prems have "s' \<in> set (iter (length (fst s)) (ms a) s)" by simp
  then show ?case by (rule iter_le [rotated]) (rule Star.IH)
next
  case (Plus a)
  from Plus.prems obtain t where t: "t \<in> set (ms a s)" "s' \<in> set (iter (length (fst t)) (ms a) t)"
    by auto
  from t(2) have "length (fst s') \<le> length (fst t)" by (rule iter_le [rotated]) (rule Plus.IH)
  with Plus.IH [OF t(1)] show ?case by simp
next
  case (Opt a)
  from Opt.prems have "s' \<in> set (ms a s) \<or> s' = s" by auto
  with Opt.IH show ?case by blast
next
  case (Group n a)
  from Group.prems obtain t where t: "t \<in> set (ms a s)" "fst s' = fst t" by auto
  from Group.IH [OF t(1)] t(2) show ?case by simp
qed

text \<open>A body that reads a character in every round is never cut off by the bound.\<close>

lemma iter_bound_enough:
  fixes body :: "mstate \<Rightarrow> mstate list"
  assumes "\<And>s s'. s' \<in> set (body s) \<Longrightarrow> length (fst s') < length (fst s)"
  shows "length (fst s) \<le> n \<Longrightarrow> iter (Suc n) body s = iter n body s"
proof (induction n arbitrary: s)
  case 0
  have "body s = []"
  proof (cases "body s")
    case Nil
    then show ?thesis .
  next
    case (Cons t ts)
    then have "t \<in> set (body s)" by simp
    from assms [OF this] 0 show ?thesis by simp
  qed
  then show ?case by simp
next
  case (Suc n)
  have meq: "map (iter (Suc n) body) (body s) = map (iter n body) (body s)"
  proof (rule map_cong [OF refl])
    fix t assume "t \<in> set (body s)"
    from assms [OF this] Suc.prems have "length (fst t) \<le> n" by simp
    then show "iter (Suc n) body t = iter n body t" by (rule Suc.IH)
  qed
  have "iter (Suc (Suc n)) body s = concat (map (iter (Suc n) body) (body s)) @ [s]"
    by (simp only: iter.simps)
  also have "\<dots> = concat (map (iter n body) (body s)) @ [s]"
    by (simp only: meq)
  also have "\<dots> = iter (Suc n) body s"
    by (simp only: iter.simps)
  finally show ?case .
qed

lemma iter_bound_enough_add:
  fixes body :: "mstate \<Rightarrow> mstate list"
  assumes "\<And>s s'. s' \<in> set (body s) \<Longrightarrow> length (fst s') < length (fst s)"
  shows "iter (length (fst s) + k) body s = iter (length (fst s)) body s"
proof (induction k)
  case 0
  show ?case by simp
next
  case (Suc k)
  have "iter (Suc (length (fst s) + k)) body s = iter (length (fst s) + k) body s"
    by (rule iter_bound_enough [OF assms]) simp_all
  with Suc show ?case by simp
qed

lemma ms_Sym_reads: "s' \<in> set (ms (Sym P) s) \<Longrightarrow> length (fst s') < length (fst s)"
  by (cases "fst s") (simp_all split: if_splits)

lemma ms_Seq_Sym_reads:
  assumes "s' \<in> set (ms (Seq (Sym P) r) s)"
  shows "length (fst s') < length (fst s)"
proof -
  from assms obtain t where t: "t \<in> set (ms (Sym P) s)" "s' \<in> set (ms r t)" by auto
  from ms_Sym_reads [OF t(1)] ms_le [OF t(2)] show ?thesis by simp
qed

lemma ms_Group_reads:
  assumes "s' \<in> set (ms (Group n (Seq (Sym P) r)) s)"
  shows "length (fst s') < length (fst s)"
proof -
  from assms have "s' \<in> (\<lambda>t. (fst t, (snd t)(n \<mapsto> take (length (fst s) - length (fst t)) (fst s)))) `
      set (ms (Seq (Sym P) r) s)"
    by (simp only: ms.simps set_map)
  then obtain t where t: "t \<in> set (ms (Seq (Sym P) r) s)" "fst s' = fst t"
    by (force simp del: ms.simps)
  from ms_Seq_Sym_reads [OF t(1)] t(2) show ?thesis by simp
qed

text \<open>
  The repetitions of the two patterns run over a character class or over the group
  \<^verbatim>\<open>(\.\d+)\<close>: a longer bound gives the same result.
\<close>

lemma star_class_bound:
  "iter (length (fst s) + k) (ms (Sym P)) s = ms (Star (Sym P)) s"
  using iter_bound_enough_add [of "ms (Sym P)" s k] ms_Sym_reads by simp

lemma star_group_bound:
  "iter (length (fst s) + k) (ms (Group n (Seq (Sym P) r))) s = ms (Star (Group n (Seq (Sym P) r))) s"
  using iter_bound_enough_add [of "ms (Group n (Seq (Sym P) r))" s k] ms_Group_reads by simp

text \<open>The matches of the two patterns are never empty.\<close>

lemma header_match_not_empty:
  assumes "match_at clause_header_pattern s = Some m"
  shows "length (fst m) < length s"
proof -
  from assms have "m \<in> set (ms clause_header_pattern (s, Map.empty))"
    by (auto simp: match_at_def split: list.splits)
  then have "length (fst m) < length (fst (s, Map.empty :: nat \<rightharpoonup> ustr))"
    unfolding clause_header_pattern_def chr_def by (rule ms_Seq_Sym_reads)
  then show ?thesis by simp
qed

lemma paragraph_match_not_empty:
  assumes "match_at paragraph_pattern s = Some m"
  shows "length (fst m) < length s"
proof -
  from assms have "m \<in> set (ms paragraph_pattern (s, Map.empty))"
    by (auto simp: match_at_def split: list.splits)
  then have "length (fst m) < length (fst (s, Map.empty :: nat \<rightharpoonup> ustr))"
    unfolding paragraph_pattern_def chr_def by (rule ms_Seq_Sym_reads)
  then show ?thesis by simp
qed

subsection \<open>Roles\<close>

lemma keyword_loop_iff: "keyword_loop ks s \<longleftrightarrow> (\<exists>k \<in> set ks. contains k s)"
  by (induction ks) auto

text \<open>
  Claim C6. For every clause text whose lower-case form contains a prohibition keyword
  and an obligation keyword, \<^verbatim>\<open>_classify_clause\<close> returns prohibition.
\<close>

theorem classify_clause_prohibition:
  assumes "\<exists>k \<in> set prohibition_keywords. contains k (lower t)"
    and "\<exists>k \<in> set obligation_keywords. contains k (lower t)"
  shows "classify_clause t = Prohibition"
  using assms(1) by (simp add: classify_clause_def keyword_loop_iff Let_def)

theorem classify_clause_prohibition_witness:
  "(\<exists>k \<in> set prohibition_keywords. contains k (lower (lit ''The Vendor SHALL NOT subcontract.''))) \<and>
   (\<exists>k \<in> set obligation_keywords. contains k (lower (lit ''The Vendor SHALL NOT subcontract.''))) \<and>
   classify_clause (lit ''The Vendor SHALL NOT subcontract.'') = Prohibition"
proof -
  have p: "\<exists>k \<in> set prohibition_keywords. contains k (lower (lit ''The Vendor SHALL NOT subcontract.''))"
    by (simp add: prohibition_keywords_def lit_def lower_def lower_cp_def)
  have ob: "\<exists>k \<in> set obligation_keywords. contains k (lower (lit ''The Vendor SHALL NOT subcontract.''))"
    by (simp add: obligation_keywords_def lit_def lower_def lower_cp_def)
  from classify_clause_prohibition [OF p ob] p ob show ?thesis by blast
qed

subsection \<open>Segmentation\<close>

text \<open>
  Claim C2. \<^verbatim>\<open>extract\<close> raises on a contract that has a blank line before its first
  numbered heading: the split puts the piece \<^verbatim>\<open>'\n'\<close> in front of the heading, the piece
  is not empty and passes \<^verbatim>\<open>if not part: continue\<close>, \<^verbatim>\<open>strip\<close> empties it, and
  \<^verbatim>\<open>part[0]\<close> raises IndexError.
\<close>

theorem extract_clauses_blank_line_raises:
  "extract_clauses blank_line_contract = Inl IndexError"
  by (simp add: extract_clauses_def blank_line_contract_def re_split_def lit_def rx_eval
        process_numbered_sections_def strip_def is_header_def Let_def)








end
